theory Spec2Isabelle
  imports Complex_Main "HOL-Library.List_Lexorder"
begin

section \<open>Resume analyzer: shallow embedding of \<open>routes/analyzer.py\<close>\<close>

text \<open>
  The pipeline of \<open>analyzer.py\<close> calls four libraries (PyPDF2, NLTK, spaCy,
  scikit-learn) and a few builtins whose result depends on the Unicode character
  database. They are not part of the repository, so they enter the model as the fields
  of an environment record; every function of the repository is then an ordinary HOL
  function of that environment.
\<close>

subsection \<open>Python values\<close>

text \<open>
  A Python float is modelled as a real number or one of the three special values.
  Comparisons with \<open>NaN\<close> are false, as in Python; rounding of the arithmetic is not
  modelled.
\<close>

datatype pyfloat = NaN | NegInf | Fin real | PosInf

fun py_lt :: "pyfloat \<Rightarrow> pyfloat \<Rightarrow> bool" where
  "py_lt NaN _ = False"
| "py_lt _ NaN = False"
| "py_lt (Fin a) (Fin b) = (a < b)"
| "py_lt NegInf NegInf = False"
| "py_lt NegInf _ = True"
| "py_lt _ NegInf = False"
| "py_lt PosInf _ = False"
| "py_lt _ PosInf = True"

text \<open>
  The builtins \<open>min(a, b)\<close> and \<open>max(a, b)\<close> keep the first argument unless the
  second compares strictly smaller (greater).
\<close>

definition py_min :: "pyfloat \<Rightarrow> pyfloat \<Rightarrow> pyfloat" where
  "py_min a b = (if py_lt b a then b else a)"

definition py_max :: "pyfloat \<Rightarrow> pyfloat \<Rightarrow> pyfloat" where
  "py_max a b = (if py_lt a b then b else a)"

fun py_mul :: "pyfloat \<Rightarrow> pyfloat \<Rightarrow> pyfloat" where
  "py_mul NaN _ = NaN"
| "py_mul _ NaN = NaN"
| "py_mul (Fin a) (Fin b) = Fin (a * b)"
| "py_mul (Fin a) PosInf = (if a = 0 then NaN else if 0 < a then PosInf else NegInf)"
| "py_mul (Fin a) NegInf = (if a = 0 then NaN else if 0 < a then NegInf else PosInf)"
| "py_mul PosInf (Fin b) = (if b = 0 then NaN else if 0 < b then PosInf else NegInf)"
| "py_mul NegInf (Fin b) = (if b = 0 then NaN else if 0 < b then NegInf else PosInf)"
| "py_mul PosInf PosInf = PosInf"
| "py_mul NegInf NegInf = PosInf"
| "py_mul PosInf NegInf = NegInf"
| "py_mul NegInf PosInf = NegInf"

text \<open>Truthiness of a float: only zero is falsy (\<open>NaN\<close> is truthy).\<close>

definition float_truthy :: "pyfloat \<Rightarrow> bool" where
  "float_truthy x = (x \<noteq> Fin 0)"

text \<open>A call that may raise: \<open>Raises\<close> stands for any Python exception.\<close>

datatype 'a outcome = Raises | Returns 'a

subsection \<open>Strings\<close>

text \<open>
  A Python \<open>str\<close> is a sequence of Unicode code points, and \<open>len\<close> counts code points.
  A code point is an integer here, as \<open>ord\<close> gives it; \<open>lit\<close> gives the \<open>str\<close> of an
  ASCII literal of the source.
\<close>

type_synonym str = "int list"

definition lit :: "string \<Rightarrow> str" where
  "lit s = map of_char s"

definition newline :: str where
  "newline = [10]"

text \<open>
  \<open>re.sub(r'\W+', ' ', s)\<close>: every maximal run of characters outside the class \<open>\w\<close>
  becomes one space (code point 32). The class is a parameter: it is Unicode-aware.
\<close>

function re_sub_nonword :: "(int \<Rightarrow> bool) \<Rightarrow> str \<Rightarrow> str" where
  "re_sub_nonword w [] = []"
| "re_sub_nonword w (c # cs) =
     (if w c then c # re_sub_nonword w cs
      else 32 # re_sub_nonword w (dropWhile (\<lambda>d. \<not> w d) cs))"
  by pat_completeness auto
termination
  by (relation "measure (\<lambda>(w, s). length s)") (auto simp: less_Suc_eq_le length_dropWhile_le)

text \<open>
  \<open>s.split()\<close>: the maximal runs of non-whitespace characters. The whitespace class is a
  parameter as well.
\<close>

function py_split :: "(int \<Rightarrow> bool) \<Rightarrow> str \<Rightarrow> str list" where
  "py_split sp [] = []"
| "py_split sp (c # cs) =
     (if sp c then py_split sp cs
      else (c # takeWhile (\<lambda>d. \<not> sp d) cs) # py_split sp (dropWhile (\<lambda>d. \<not> sp d) cs))"
  by pat_completeness auto
termination
  by (relation "measure (\<lambda>(sp, s). length s)") (auto simp: less_Suc_eq_le length_dropWhile_le)

text \<open>\<open>sep.join(xs)\<close>.\<close>

fun join :: "str \<Rightarrow> str list \<Rightarrow> str" where
  "join sep [] = []"
| "join sep [x] = x"
| "join sep (x # y # ys) = x @ sep @ join sep (y # ys)"

text \<open>\<open>str(n)\<close> for a length, as the f-strings print it (the digit \<open>d\<close> is code point \<open>48 + d\<close>).\<close>

fun str_of_nat :: "nat \<Rightarrow> str" where
  "str_of_nat n =
     (if n < 10 then [48 + int n]
      else str_of_nat (n div 10) @ [48 + int (n mod 10)])"

declare str_of_nat.simps [simp del]

text \<open>\<open>os.path.basename(p)\<close>: what follows the last slash (code point 47).\<close>

definition basename :: "str \<Rightarrow> str" where
  "basename p = rev (takeWhile (\<lambda>c. c \<noteq> 47) (rev p))"

subsection \<open>The external collaborators\<close>

text \<open>What the code reads of a spaCy \<open>Doc\<close>.\<close>

record doc =
  has_vector :: bool
  vector_norm :: pyfloat
  vector :: "real list"
  noun_chunks :: "str list"

text \<open>
  \<^item> \<open>pdf_reader path\<close>: opening and parsing the file raises, or gives the pages; each
    page's \<open>extract_text()\<close> raises or returns a string;
  \<^item> \<open>str_lower\<close>: the builtin \<open>str.lower\<close>; \<open>is_word_char\<close>: the class \<open>\w\<close> of
    the module \<open>re\<close>; \<open>is_space\<close>: the whitespace on which \<open>str.split()\<close> splits (the
    three read the Unicode character database);
  \<^item> \<open>word_tokenize\<close>, \<open>stop_words\<close>, \<open>lemmatize\<close>: the NLTK resources;
  \<^item> \<open>nlp\<close>: the spaCy model;
  \<^item> \<open>cosine_similarity u v\<close>: scikit-learn's \<open>cosine_similarity([u], [v])[0][0]\<close>;
  \<^item> \<open>set_to_list\<close>: the order in which \<open>list(s)\<close> enumerates a set;
  \<^item> \<open>round1\<close>: the builtin \<open>round(x, 1)\<close>.
\<close>

record env =
  pdf_reader :: "str \<Rightarrow> str outcome list outcome"
  str_lower :: "str \<Rightarrow> str"
  is_word_char :: "int \<Rightarrow> bool"
  is_space :: "int \<Rightarrow> bool"
  word_tokenize :: "str \<Rightarrow> str list"
  stop_words :: "str set"
  lemmatize :: "str \<Rightarrow> str"
  nlp :: "str \<Rightarrow> doc"
  cosine_similarity :: "real list \<Rightarrow> real list \<Rightarrow> pyfloat"
  set_to_list :: "str set \<Rightarrow> str list"
  round1 :: "pyfloat \<Rightarrow> pyfloat"

subsection \<open>\<open>extract_text_from_pdf\<close>\<close>

text \<open>
  The loop over the pages, with the accumulated text; \<open>None\<close> when a page's
  \<open>extract_text()\<close> raises (the exception leaves the loop and reaches the handler
  around the whole body).
\<close>

fun extract_pages :: "str outcome list \<Rightarrow> str \<Rightarrow> str option" where
  "extract_pages [] text = Some text"
| "extract_pages (Raises # pages) text = None"
| "extract_pages (Returns page_text # pages) text =
     extract_pages pages (if page_text \<noteq> [] then text @ page_text @ newline else text)"

definition extract_text_from_pdf :: "env \<Rightarrow> str \<Rightarrow> str option" where
  "extract_text_from_pdf e file_path =
     (case pdf_reader e file_path of
        Raises \<Rightarrow> None
      | Returns pages \<Rightarrow>
          (case extract_pages pages [] of
             None \<Rightarrow> None
           | Some text \<Rightarrow> if text = [] then None else Some text))"

subsection \<open>\<open>preprocess\<close>\<close>

definition preprocess :: "env \<Rightarrow> str \<Rightarrow> str" where
  "preprocess e text =
     (if text = [] then []
      else
        let text' = re_sub_nonword (is_word_char e) (str_lower e text);
            tokens = word_tokenize e text';
            processed_tokens =
              map (lemmatize e) (filter (\<lambda>t. t \<notin> stop_words e \<and> 1 < length t) tokens)
        in join (lit '' '') processed_tokens)"

subsection \<open>\<open>calculate_similarity\<close>\<close>

definition calculate_similarity :: "env \<Rightarrow> str \<Rightarrow> str \<Rightarrow> pyfloat" where
  "calculate_similarity e jd_text resume_text =
     (if jd_text = [] \<or> resume_text = [] then Fin 0
      else
        let jd_doc = nlp e jd_text;
            resume_doc = nlp e resume_text
        in if \<not> has_vector jd_doc \<or> \<not> has_vector resume_doc
              \<or> \<not> float_truthy (vector_norm jd_doc) \<or> \<not> float_truthy (vector_norm resume_doc)
           then Fin 0
           else
             let similarity = cosine_similarity e (vector jd_doc) (vector resume_doc)
             in py_mul (py_max (Fin 0) (py_min (Fin 1) similarity)) (Fin 100))"

subsection \<open>\<open>extract_skills\<close> and \<open>analyze_skills\<close>\<close>

definition extract_skills :: "env \<Rightarrow> str \<Rightarrow> str set" where
  "extract_skills e text =
     (if text = [] then {}
      else
        let d = nlp e text;
            skills = str_lower e `
              set (filter (\<lambda>chunk. length (py_split (is_space e) chunk) \<le> 3) (noun_chunks d))
        in Set.filter
             (\<lambda>s. 2 < length s
                  \<and> \<not> list_all (\<lambda>token. token \<in> stop_words e) (py_split (is_space e) s))
             skills)"

definition MAX_SKILLS_DISPLAY :: nat where
  "MAX_SKILLS_DISPLAY = 10"

definition analyze_skills :: "env \<Rightarrow> str \<Rightarrow> str \<Rightarrow> str list \<times> str list \<times> str" where
  "analyze_skills e jd_processed resume_processed =
     (let jd_skills = extract_skills e jd_processed;
          resume_skills = extract_skills e resume_processed
      in if jd_skills = {} then ([], [], lit ''Could not extract skills from Job Description.'')
         else
           let strengths = set_to_list e (jd_skills \<inter> resume_skills);
               missing_skills = set_to_list e (jd_skills - resume_skills);
               feedback = lit ''Candidate shows strength in '' @ str_of_nat (length strengths)
                            @ lit '' key areas. '';
               feedback' =
                 (if missing_skills \<noteq> []
                  then feedback @ lit ''Potential gaps identified in ''
                         @ str_of_nat (length missing_skills) @ lit '' areas like: ''
                         @ join (lit '', '') (take 3 missing_skills) @ lit ''...''
                  else feedback @ lit ''Covers all key skill areas identified.'')
           in (take MAX_SKILLS_DISPLAY strengths, take MAX_SKILLS_DISPLAY missing_skills, feedback'))"

subsection \<open>\<open>analyze_resumes\<close>\<close>

text \<open>An element of \<open>data['resume_files']\<close>: a dictionary whose keys may be missing.\<close>

record resume_file =
  path :: "str option"
  original_name :: "str option"

text \<open>The JSON body, once it is truthy: each of the two keys may be missing.\<close>

record request_data =
  resume_files :: "resume_file list option"
  job_description :: "str option"

datatype entry =
  Entry_error (entry_resume: str) (entry_message: str)
| Entry_success (entry_resume: str) (match_score: pyfloat) (key_strengths: "str list")
    (missing_skills: "str list") (feedback: str)

definition entry_status :: "entry \<Rightarrow> str" where
  "entry_status x =
     (case x of Entry_error _ _ \<Rightarrow> lit ''error'' | Entry_success _ _ _ _ _ \<Rightarrow> lit ''success'')"

text \<open>The JSON response with its HTTP code; \<open>results\<close> is \<open>None\<close> when the key is absent.\<close>

record response =
  http_code :: nat
  status :: str
  message :: str
  results :: "entry list option"

definition error_response :: "str \<Rightarrow> response" where
  "error_response msg = \<lparr>http_code = 400, status = lit ''error'', message = msg, results = None\<rparr>"

text \<open>
  The variables of the loop, and \<open>files_read\<close>: the paths handed to
  \<open>extract_text_from_pdf\<close> so far, in order (the loop's only effect outside its variables).
\<close>

record loop_state =
  results_list :: "entry list"
  valid_resumes_count :: nat
  files_read :: "str list"

definition process_resume :: "env \<Rightarrow> str \<Rightarrow> loop_state \<Rightarrow> resume_file \<Rightarrow> loop_state" where
  "process_resume e jd_processed st rf =
     (case path rf of
        None \<Rightarrow> st
      | Some file_path \<Rightarrow>
          let name = (case original_name rf of Some n \<Rightarrow> n | None \<Rightarrow> basename file_path);
              st1 = st\<lparr>files_read := files_read st @ [file_path]\<rparr>;
              resume_text_raw = extract_text_from_pdf e file_path
          in if resume_text_raw = None \<or> resume_text_raw = Some []
             then st1\<lparr>results_list := results_list st1
                        @ [Entry_error name (lit ''Could not extract text from PDF'')]\<rparr>
             else
               let resume_text_processed = preprocess e (the resume_text_raw)
               in if resume_text_processed = []
                  then st1\<lparr>results_list := results_list st1
                             @ [Entry_error name (lit ''Could not preprocess resume text'')]\<rparr>
                  else
                    let score = calculate_similarity e jd_processed resume_text_processed;
                        (strengths, missing, fb) = analyze_skills e jd_processed resume_text_processed
                    in st1\<lparr>results_list := results_list st1
                               @ [Entry_success name (round1 e score) strengths missing fb],
                           valid_resumes_count := valid_resumes_count st1 + 1\<rparr>)"

definition process_resumes :: "env \<Rightarrow> str \<Rightarrow> resume_file list \<Rightarrow> loop_state" where
  "process_resumes e jd_processed files =
     foldl (process_resume e jd_processed)
       \<lparr>results_list = [], valid_resumes_count = 0, files_read = []\<rparr> files"

text \<open>
  The endpoint: the response, and the paths read while producing it. \<open>data = None\<close> is
  a falsy body.
\<close>

definition analyze_resumes :: "env \<Rightarrow> request_data option \<Rightarrow> response \<times> str list" where
  "analyze_resumes e data =
     (case data of
        None \<Rightarrow> (error_response (lit ''No data provided''), [])
      | Some d \<Rightarrow>
          if resume_files d = None \<or> resume_files d = Some []
          then (error_response (lit ''No resume files specified for analysis''), [])
          else if job_description d = None \<or> job_description d = Some []
          then (error_response (lit ''No job description provided for analysis''), [])
          else
            let job_description_raw = the (job_description d);
                files = the (resume_files d);
                jd_processed = preprocess e job_description_raw
            in if jd_processed = []
               then (error_response (lit ''Could not process the job description''), [])
               else
                 let st = process_resumes e jd_processed files
                 in if valid_resumes_count st = 0
                    then (error_response (lit ''No valid resumes could be processed''), files_read st)
                    else (\<lparr>http_code = 200, status = lit ''success'',
                           message = lit ''Successfully analyzed ''
                                       @ str_of_nat (valid_resumes_count st) @ lit '' resume(s)'',
                           results = Some (results_list st)\<rparr>, files_read st))"

subsection \<open>Notions used to state the properties\<close>

text \<open>A text has no character of the class \<open>up\<close>.\<close>

definition free_of :: "(int \<Rightarrow> bool) \<Rightarrow> str \<Rightarrow> bool" where
  "free_of up s = list_all (\<lambda>c. \<not> up c) s"

text \<open>The texts of the pages that contribute to an extraction, each followed by a newline.\<close>

definition pages_text :: "str list \<Rightarrow> str" where
  "pages_text texts = concat (map (\<lambda>t. t @ newline) (filter (\<lambda>t. t \<noteq> []) texts))"

text \<open>The name under which a resume is reported.\<close>

definition resume_name :: "resume_file \<Rightarrow> str" where
  "resume_name rf =
     (case original_name rf of Some n \<Rightarrow> n | None \<Rightarrow> basename (the (path rf)))"

definition has_path :: "resume_file \<Rightarrow> bool" where
  "has_path rf = (path rf \<noteq> None)"

text \<open>
  A resume reaches the end of the pipeline: it has a path, text is extracted and
  normalizes to a non-empty text.
\<close>

definition resume_completes :: "env \<Rightarrow> resume_file \<Rightarrow> bool" where
  "resume_completes e rf =
     (case path rf of
        None \<Rightarrow> False
      | Some p \<Rightarrow>
          (case extract_text_from_pdf e p of
             None \<Rightarrow> False
           | Some raw \<Rightarrow> preprocess e raw \<noteq> []))"

text \<open>The status under which a resume that has a path is reported.\<close>

definition outcome_status :: "env \<Rightarrow> resume_file \<Rightarrow> str" where
  "outcome_status e rf = (if resume_completes e rf then lit ''success'' else lit ''error'')"

text \<open>
  The extractor as the specification words it, to compare with the code: a page whose
  extraction fails is skipped, and only a failure to open or parse the document, or
  the absence of any text, gives \<open>None\<close>.
\<close>

definition extract_text_spec :: "env \<Rightarrow> str \<Rightarrow> str option" where
  "extract_text_spec e file_path =
     (case pdf_reader e file_path of
        Raises \<Rightarrow> None
      | Returns pages \<Rightarrow>
          let text = pages_text (concat (map (\<lambda>p. case p of Raises \<Rightarrow> [] | Returns t \<Rightarrow> [t]) pages))
          in if text = [] then None else Some text)"

subsection \<open>An example environment\<close>

text \<open>
  A small instance of the collaborators, on which the properties below are run. Its
  texts are made of ASCII characters and of U+1D400 (code point 119808), MATHEMATICAL
  BOLD CAPITAL A: an uppercase letter that \<open>str.lower\<close> leaves unchanged and that \<open>\w\<close>
  matches. On these characters \<open>str_lower_ex\<close>, \<open>is_word_char_ex\<close> and \<open>is_upper_ex\<close>
  are Python's \<open>str.lower\<close>, \<open>\w\<close> and \<open>str.isupper\<close>; \<open>is_space_ex\<close> is the whitespace of
  \<open>str.split()\<close>. The rest: four files, whitespace tokenization, a few of NLTK's stop
  words, a lemmatizer with three of WordNet's answers (\<open>skills\<close> to \<open>skill\<close>, \<open>us\<close> to
  \<open>u\<close>, \<open>downs\<close> to \<open>down\<close>), a model that knows two texts, and the cosine of two vectors.
\<close>

definition str_lower_ex :: "str \<Rightarrow> str" where
  "str_lower_ex s = map (\<lambda>c. if 65 \<le> c \<and> c \<le> 90 then c + 32 else c) s"

definition is_word_char_ex :: "int \<Rightarrow> bool" where
  "is_word_char_ex c =
     ((48 \<le> c \<and> c \<le> 57) \<or> (65 \<le> c \<and> c \<le> 90) \<or> c = 95 \<or> (97 \<le> c \<and> c \<le> 122)
      \<or> c = 119808)"

definition is_upper_ex :: "int \<Rightarrow> bool" where
  "is_upper_ex c = ((65 \<le> c \<and> c \<le> 90) \<or> c = 119808)"

definition is_space_ex :: "int \<Rightarrow> bool" where
  "is_space_ex c =
     ((9 \<le> c \<and> c \<le> 13) \<or> (28 \<le> c \<and> c \<le> 32) \<or> c = 133 \<or> c = 160 \<or> c = 5760
      \<or> (8192 \<le> c \<and> c \<le> 8202) \<or> c = 8232 \<or> c = 8233 \<or> c = 8239 \<or> c = 8287
      \<or> c = 12288)"

definition pdf_reader_ex :: "str \<Rightarrow> str outcome list outcome" where
  "pdf_reader_ex p =
     (if p = lit ''/tmp/cv1.pdf''
      then Returns [Returns (lit ''Python SQL''), Returns [], Returns (lit ''Docker'')]
      else if p = lit ''/tmp/cv2.pdf'' then Returns [Returns (lit ''Java''), Raises]
      else if p = lit ''/tmp/scan.pdf'' then Returns [Returns [], Returns []]
      else Raises)"

definition lemmatize_ex :: "str \<Rightarrow> str" where
  "lemmatize_ex t =
     (if t = lit ''skills'' then lit ''skill'' else if t = lit ''us'' then lit ''u''
      else if t = lit ''downs'' then lit ''down'' else t)"

definition nlp_ex :: "str \<Rightarrow> doc" where
  "nlp_ex t =
     (if t = lit ''python sql kubernetes''
      then \<lparr>has_vector = True, vector_norm = Fin 5, vector = [3, 4],
             noun_chunks = py_split is_space_ex t\<rparr>
      else if t = lit ''python sql docker''
      then \<lparr>has_vector = True, vector_norm = Fin 5, vector = [4, 3],
             noun_chunks = py_split is_space_ex t\<rparr>
      else \<lparr>has_vector = False, vector_norm = Fin 0, vector = [],
             noun_chunks = py_split is_space_ex t\<rparr>)"

definition dot :: "real list \<Rightarrow> real list \<Rightarrow> real" where
  "dot u v = sum_list (map (\<lambda>(x, y). x * y) (zip u v))"

definition cosine_ex :: "real list \<Rightarrow> real list \<Rightarrow> pyfloat" where
  "cosine_ex u v =
     (let nu = sqrt (dot u u); nv = sqrt (dot v v)
      in if nu = 0 \<or> nv = 0 then Fin 0 else Fin (dot u v / (nu * nv)))"

definition round1_ex :: "pyfloat \<Rightarrow> pyfloat" where
  "round1_ex x = (case x of Fin r \<Rightarrow> Fin (of_int (round (r * 10)) / 10) | _ \<Rightarrow> x)"

definition env_ex :: env where
  "env_ex =
     \<lparr>pdf_reader = pdf_reader_ex,
      str_lower = str_lower_ex,
      is_word_char = is_word_char_ex,
      is_space = is_space_ex,
      word_tokenize = py_split is_space_ex,
      stop_words = {lit ''the'', lit ''and'', lit ''a'', lit ''with'', lit ''down''},
      lemmatize = lemmatize_ex,
      nlp = nlp_ex,
      cosine_similarity = cosine_ex,
      set_to_list = sorted_list_of_set,
      round1 = round1_ex\<rparr>"

definition cv1 :: resume_file where
  "cv1 = \<lparr>path = Some (lit ''/tmp/cv1.pdf''), original_name = Some (lit ''alice.pdf'')\<rparr>"

definition cv2 :: resume_file where
  "cv2 = \<lparr>path = Some (lit ''/tmp/cv2.pdf''), original_name = None\<rparr>"

definition nopath :: resume_file where
  "nopath = \<lparr>path = None, original_name = Some (lit ''bob.pdf'')\<rparr>"

definition batch :: "resume_file list \<Rightarrow> str \<Rightarrow> request_data option" where
  "batch files jd = Some \<lparr>resume_files = Some files, job_description = Some jd\<rparr>"

section \<open>Properties\<close>

lemma env_ex_sel:
  "pdf_reader env_ex = pdf_reader_ex" "str_lower env_ex = str_lower_ex"
  "is_word_char env_ex = is_word_char_ex" "is_space env_ex = is_space_ex"
  "word_tokenize env_ex = py_split is_space_ex"
  "stop_words env_ex = {lit ''the'', lit ''and'', lit ''a'', lit ''with'', lit ''down''}"
  "lemmatize env_ex = lemmatize_ex" "nlp env_ex = nlp_ex"
  "set_to_list env_ex = sorted_list_of_set"
  by (simp_all add: env_ex_def)

lemma lit_eq_iff: "lit a = lit b \<longleftrightarrow> a = b"
  by (simp add: lit_def inj_map_eq_map inj_on_def)

lemma lit_Nil_iff: "lit a = [] \<longleftrightarrow> a = []"
  by (simp add: lit_def)

subsection \<open>Similarity\<close>

lemma clamp_range:
  "\<exists>r. py_mul (py_max (Fin 0) (py_min (Fin 1) s)) (Fin 100) = Fin r \<and> 0 \<le> r \<and> r \<le> 100"
  by (cases s) (auto simp: py_min_def py_max_def)

text \<open>
  C1. For every pair of texts and every environment (whatever the model and the cosine
  return, \<open>NaN\<close> and the infinities included), \<open>calculate_similarity\<close> returns a
  number between 0 and 100, never \<open>NaN\<close>; when a text is empty, or a document has no
  vector or a zero vector norm, it returns exactly 0.
\<close>

theorem calculate_similarity_bounded:
  "(\<exists>r. calculate_similarity e jd_text resume_text = Fin r \<and> 0 \<le> r \<and> r \<le> 100)
   \<and> (jd_text = [] \<or> resume_text = []
        \<or> \<not> has_vector (nlp e jd_text) \<or> \<not> has_vector (nlp e resume_text)
        \<or> vector_norm (nlp e jd_text) = Fin 0 \<or> vector_norm (nlp e resume_text) = Fin 0
      \<longrightarrow> calculate_similarity e jd_text resume_text = Fin 0)"
proof
  show "\<exists>r. calculate_similarity e jd_text resume_text = Fin r \<and> 0 \<le> r \<and> r \<le> 100"
    using clamp_range by (simp add: calculate_similarity_def Let_def)
next
  show "jd_text = [] \<or> resume_text = []
        \<or> \<not> has_vector (nlp e jd_text) \<or> \<not> has_vector (nlp e resume_text)
        \<or> vector_norm (nlp e jd_text) = Fin 0 \<or> vector_norm (nlp e resume_text) = Fin 0
      \<longrightarrow> calculate_similarity e jd_text resume_text = Fin 0"
    by (auto simp: calculate_similarity_def Let_def float_truthy_def)
qed

lemma nlp_ex_example:
  "nlp_ex (lit ''java'')
   = \<lparr>has_vector = False, vector_norm = Fin 0, vector = [],
       noun_chunks = py_split is_space_ex (lit ''java'')\<rparr>"
  "nlp_ex (lit ''python sql kubernetes'')
   = \<lparr>has_vector = True, vector_norm = Fin 5, vector = [3, 4],
       noun_chunks = py_split is_space_ex (lit ''python sql kubernetes'')\<rparr>"
  "nlp_ex (lit ''python sql docker'')
   = \<lparr>has_vector = True, vector_norm = Fin 5, vector = [4, 3],
       noun_chunks = py_split is_space_ex (lit ''python sql docker'')\<rparr>"
  by (simp_all add: nlp_ex_def lit_eq_iff)

theorem calculate_similarity_bounded_witness:
  "\<not> has_vector (nlp env_ex (lit ''java''))
   \<and> calculate_similarity env_ex (lit ''python sql kubernetes'') (lit ''java'') = Fin 0
   \<and> calculate_similarity env_ex (lit ''python sql kubernetes'') [] = Fin 0"
  using calculate_similarity_bounded [of env_ex "lit ''python sql kubernetes''" "lit ''java''"]
    calculate_similarity_bounded [of env_ex "lit ''python sql kubernetes''" "[]"]
  by (simp add: env_ex_sel nlp_ex_example)

lemma calculate_similarity_example:
  "calculate_similarity env_ex (lit ''python sql kubernetes'') (lit ''python sql docker'') = Fin 96"
  by (simp add: calculate_similarity_def env_ex_def nlp_ex_example lit_Nil_iff float_truthy_def
      cosine_ex_def dot_def py_min_def py_max_def)

text \<open>A cosine that returns \<open>NaN\<close> is clamped to 1 by \<open>min(1.0, similarity)\<close>.\<close>

lemma calculate_similarity_nan_example:
  "calculate_similarity (env_ex\<lparr>cosine_similarity := \<lambda>u v. NaN\<rparr>)
     (lit ''python sql kubernetes'') (lit ''python sql docker'') = Fin 100"
  by (simp add: calculate_similarity_def env_ex_def nlp_ex_example lit_Nil_iff float_truthy_def
      py_min_def py_max_def)

lemma dot_commute: "dot u v = dot v u"
proof -
  have "map (\<lambda>(x, y). x * y) (zip u v) = map (\<lambda>(x, y). x * y) (zip v u)"
    by (induction u v rule: list_induct2') (simp_all add: mult.commute)
  then show ?thesis by (simp add: dot_def)
qed

lemma cosine_ex_commute: "cosine_ex u v = cosine_ex v u"
  by (auto simp: cosine_ex_def Let_def dot_commute [of u v] mult.commute)

text \<open>
  C2. \<open>calculate_similarity\<close> is symmetric in its two texts: both orders take the same
  guards and call the cosine on the same two vectors, swapped; the cosine of the
  library is symmetric.
\<close>

theorem calculate_similarity_symmetric:
  assumes "\<forall>u v. cosine_similarity e u v = cosine_similarity e v u"
  shows "calculate_similarity e a b = calculate_similarity e b a"
proof -
  have "cosine_similarity e (vector (nlp e a)) (vector (nlp e b))
        = cosine_similarity e (vector (nlp e b)) (vector (nlp e a))"
    using assms by blast
  then show ?thesis
    by (auto simp: calculate_similarity_def Let_def)
qed

theorem calculate_similarity_symmetric_witness:
  "calculate_similarity env_ex (lit ''python sql docker'') (lit ''python sql kubernetes'') = Fin 96
   \<and> calculate_similarity env_ex (lit ''python sql kubernetes'') (lit ''python sql docker'') = Fin 96"
proof -
  have sym: "\<forall>u v. cosine_similarity env_ex u v = cosine_similarity env_ex v u"
    using cosine_ex_commute by (simp add: env_ex_def)
  show ?thesis
    using calculate_similarity_symmetric [OF sym, of "lit ''python sql docker''"
        "lit ''python sql kubernetes''"] calculate_similarity_example
    by simp
qed

subsection \<open>Skill-gap analysis\<close>

lemma finite_extract_skills: "finite (extract_skills e text)"
  by (simp add: extract_skills_def Let_def)

lemma extract_skills_example:
  "extract_skills env_ex (lit ''go'') = {}"
  "extract_skills env_ex (lit ''python sql kubernetes'')
   = {lit ''python'', lit ''sql'', lit ''kubernetes''}"
  unfolding extract_skills_def env_ex_sel by code_simp+

lemma analyze_skills_example:
  "analyze_skills env_ex (lit ''python sql kubernetes'') (lit ''python sql docker'')
   = ([lit ''python'', lit ''sql''], [lit ''kubernetes''],
      lit ''Candidate shows strength in 2 key areas. Potential gaps identified in 1 areas like: kubernetes...'')"
  unfolding analyze_skills_def extract_skills_def env_ex_sel by code_simp

text \<open>
  C3. Whatever order \<open>list(s)\<close> enumerates a set in (it yields exactly the elements of
  a finite set), the strengths and the missing skills returned by \<open>analyze_skills\<close>
  are disjoint, the strengths lie in the intersection of the job-description skill set
  with the resume skill set, the missing skills in their difference (so both in the
  job-description skill set), and each list has at most 10 elements.
\<close>

theorem analyze_skills_disjoint_capped:
  assumes enum: "\<forall>S. finite S \<longrightarrow> set (set_to_list e S) = S"
    and res: "analyze_skills e jd_processed resume_processed = (strengths, missing, fb)"
  shows "set strengths \<inter> set missing = {}
       \<and> set strengths \<subseteq> extract_skills e jd_processed \<inter> extract_skills e resume_processed
       \<and> set missing \<subseteq> extract_skills e jd_processed - extract_skills e resume_processed
       \<and> length strengths \<le> 10 \<and> length missing \<le> 10"
proof (cases "extract_skills e jd_processed = {}")
  case True
  with res show ?thesis by (simp add: analyze_skills_def)
next
  case False
  let ?J = "extract_skills e jd_processed" and ?R = "extract_skills e resume_processed"
  have s: "strengths = take 10 (set_to_list e (?J \<inter> ?R))"
    and m: "missing = take 10 (set_to_list e (?J - ?R))"
    using res False by (simp_all add: analyze_skills_def Let_def MAX_SKILLS_DISPLAY_def)
  have "set (set_to_list e (?J \<inter> ?R)) = ?J \<inter> ?R" "set (set_to_list e (?J - ?R)) = ?J - ?R"
    using enum finite_extract_skills by simp_all
  then have "set strengths \<subseteq> ?J \<inter> ?R" "set missing \<subseteq> ?J - ?R"
    using s m set_take_subset by metis+
  then show ?thesis using s m by auto
qed

theorem analyze_skills_disjoint_capped_witness:
  "set [lit ''python'', lit ''sql''] \<inter> set [lit ''kubernetes''] = {}
   \<and> set [lit ''python'', lit ''sql'']
       \<subseteq> extract_skills env_ex (lit ''python sql kubernetes'')
          \<inter> extract_skills env_ex (lit ''python sql docker'')
   \<and> set [lit ''kubernetes'']
       \<subseteq> extract_skills env_ex (lit ''python sql kubernetes'')
          - extract_skills env_ex (lit ''python sql docker'')
   \<and> length [lit ''python'', lit ''sql''] \<le> 10 \<and> length [lit ''kubernetes''] \<le> 10"
proof -
  have enum: "\<forall>S. finite S \<longrightarrow> set (set_to_list env_ex S) = S"
    by (simp add: env_ex_sel)
  show ?thesis
    by (rule analyze_skills_disjoint_capped [OF enum analyze_skills_example])
qed

text \<open>
  C9. When no skill is extracted from the job description, \<open>analyze_skills\<close> returns
  two empty lists and the message about the job description, whatever the resume and
  whatever the enumeration of sets would give.
\<close>

theorem analyze_skills_no_jd_skills:
  assumes "extract_skills e jd_processed = {}"
  shows "analyze_skills e jd_processed resume_processed
         = ([], [], lit ''Could not extract skills from Job Description.'')"
  using assms by (simp add: analyze_skills_def)

theorem analyze_skills_no_jd_skills_witness:
  "extract_skills env_ex (lit ''go'') = {}
   \<and> analyze_skills env_ex (lit ''go'') (lit ''python sql docker'')
       = ([], [], lit ''Could not extract skills from Job Description.'')"
  using analyze_skills_no_jd_skills [OF extract_skills_example(1), of "lit ''python sql docker''"]
    extract_skills_example(1)
  by simp

subsection \<open>Text extraction\<close>

lemma extract_pages_raises: "Raises \<in> set pages \<Longrightarrow> extract_pages pages acc = None"
  by (induction pages acc rule: extract_pages.induct) auto

lemma extract_pages_returns:
  "extract_pages (map Returns texts) acc = Some (acc @ pages_text texts)"
  by (induction texts arbitrary: acc) (simp_all add: pages_text_def)

lemma pages_cases: "Raises \<in> set pages \<or> (\<exists>texts. pages = map Returns texts)"
proof (induction pages)
  case Nil
  then show ?case by simp
next
  case (Cons p pages)
  show ?case
  proof (cases p)
    case Raises
    then show ?thesis by simp
  next
    case (Returns t)
    from Cons show ?thesis
    proof
      assume "Raises \<in> set pages"
      then show ?thesis by simp
    next
      assume "\<exists>texts. pages = map Returns texts"
      then obtain texts where "pages = map Returns texts" ..
      then have "p # pages = map Returns (t # texts)" using Returns by simp
      then show ?thesis by (intro disjI2 exI)
    qed
  qed
qed

lemma pages_text_empty_iff: "pages_text texts = [] \<longleftrightarrow> list_all (\<lambda>t. t = []) texts"
  by (auto simp: pages_text_def newline_def filter_empty_conv list_all_iff)

lemma pages_text_last: "pages_text texts \<noteq> [] \<Longrightarrow> last (pages_text texts) = 10"
proof (induction texts)
  case Nil
  then show ?case by (simp add: pages_text_def)
next
  case (Cons t texts)
  show ?case
  proof (cases "pages_text texts = []")
    case True
    with Cons.prems show ?thesis by (auto simp: pages_text_def newline_def)
  next
    case False
    have "pages_text (t # texts) = (if t = [] then [] else t @ newline) @ pages_text texts"
      by (simp add: pages_text_def)
    with False Cons.IH show ?thesis by simp
  qed
qed

lemma extract_text_example:
  "extract_text_from_pdf env_ex (lit ''/tmp/cv1.pdf'')
   = Some (lit ''Python SQL'' @ newline @ lit ''Docker'' @ newline)"
  "extract_text_from_pdf env_ex (lit ''/tmp/cv2.pdf'') = None"
  "extract_text_from_pdf env_ex (lit ''/tmp/scan.pdf'') = None"
  "extract_text_from_pdf env_ex (lit ''/tmp/missing.pdf'') = None"
  unfolding extract_text_from_pdf_def env_ex_sel by code_simp+

lemma pdf_reader_example:
  "pdf_reader env_ex (lit ''/tmp/cv1.pdf'')
   = Returns (map Returns [lit ''Python SQL'', [], lit ''Docker''])"
  "pdf_reader env_ex (lit ''/tmp/cv2.pdf'') = Returns [Returns (lit ''Java''), Raises]"
  "pdf_reader env_ex (lit ''/tmp/scan.pdf'') = Returns (map Returns [[], []])"
  "pdf_reader env_ex (lit ''/tmp/missing.pdf'') = Raises"
  unfolding env_ex_sel by code_simp+

text \<open>
  C10. A result of \<open>extract_text_from_pdf\<close> is never the empty string: when it is a
  text, the text is not empty, it is the concatenation of the non-empty page texts,
  each followed by a newline, and so it ends with a newline (code point 10).
\<close>

theorem extract_text_nonempty_newline:
  assumes "extract_text_from_pdf e file_path = Some text"
  shows "text \<noteq> [] \<and> last text = 10
       \<and> (\<exists>texts. pdf_reader e file_path = Returns (map Returns texts) \<and> text = pages_text texts)"
proof -
  from assms obtain pages where pg: "pdf_reader e file_path = Returns pages"
    by (auto simp: extract_text_from_pdf_def split: outcome.splits)
  from assms pg have ep: "extract_pages pages [] = Some text" and ne: "text \<noteq> []"
    by (auto simp: extract_text_from_pdf_def split: option.splits if_splits)
  from ep have "Raises \<notin> set pages" using extract_pages_raises by fastforce
  then obtain texts where tx: "pages = map Returns texts" using pages_cases by blast
  with ep have t: "text = pages_text texts" by (simp add: extract_pages_returns)
  with ne have "last text = 10" using pages_text_last by simp
  with ne t tx pg show ?thesis by blast
qed

theorem extract_text_nonempty_newline_witness:
  "extract_text_from_pdf env_ex (lit ''/tmp/cv1.pdf'')
   = Some (lit ''Python SQL'' @ newline @ lit ''Docker'' @ newline)
   \<and> lit ''Python SQL'' @ newline @ lit ''Docker'' @ newline \<noteq> []
   \<and> last (lit ''Python SQL'' @ newline @ lit ''Docker'' @ newline) = 10"
  using extract_text_nonempty_newline [OF extract_text_example(1)] extract_text_example(1)
  by simp

text \<open>
  C5, as the code has it. One handler surrounds the whole body: an exception raised
  while opening or parsing the document, or by the extraction of any page, makes the
  extractor return \<open>None\<close>, and nothing propagates. A page whose text is empty
  contributes nothing. When nothing raises, the result is \<open>None\<close> exactly when no
  page yields text, and otherwise the non-empty page texts, each followed by a newline.
\<close>

theorem extract_text_failures:
  "(pdf_reader e file_path = Raises \<longrightarrow> extract_text_from_pdf e file_path = None)
   \<and> (\<forall>pages. pdf_reader e file_path = Returns pages \<and> Raises \<in> set pages
         \<longrightarrow> extract_text_from_pdf e file_path = None)
   \<and> (\<forall>texts. pdf_reader e file_path = Returns (map Returns texts)
         \<longrightarrow> extract_text_from_pdf e file_path
              = (if list_all (\<lambda>t. t = []) texts then None else Some (pages_text texts)))"
  by (auto simp: extract_text_from_pdf_def extract_pages_raises extract_pages_returns
      pages_text_empty_iff)

theorem extract_text_failures_witness:
  "extract_text_from_pdf env_ex (lit ''/tmp/missing.pdf'') = None
   \<and> extract_text_from_pdf env_ex (lit ''/tmp/cv2.pdf'') = None
   \<and> extract_text_from_pdf env_ex (lit ''/tmp/scan.pdf'') = None
   \<and> extract_text_from_pdf env_ex (lit ''/tmp/cv1.pdf'')
       = Some (pages_text [lit ''Python SQL'', [], lit ''Docker''])"
proof -
  have a: "extract_text_from_pdf env_ex (lit ''/tmp/missing.pdf'') = None"
    by (rule extract_text_failures [of env_ex "lit ''/tmp/missing.pdf''", THEN conjunct1, THEN mp,
          OF pdf_reader_example(4)])
  have m: "Raises \<in> set [Returns (lit ''Java''), Raises]" by simp
  have b: "extract_text_from_pdf env_ex (lit ''/tmp/cv2.pdf'') = None"
    by (rule extract_text_failures [of env_ex "lit ''/tmp/cv2.pdf''", THEN conjunct2, THEN conjunct1,
          THEN spec, of "[Returns (lit ''Java''), Raises]", THEN mp,
          OF conjI [OF pdf_reader_example(2) m]])
  have "extract_text_from_pdf env_ex (lit ''/tmp/scan.pdf'')
        = (if list_all (\<lambda>t. t = []) [[], [] :: str] then None else Some (pages_text [[], []]))"
    by (rule extract_text_failures [of env_ex "lit ''/tmp/scan.pdf''", THEN conjunct2, THEN conjunct2,
          THEN spec, of "[[], []]", THEN mp, OF pdf_reader_example(3)])
  then have c: "extract_text_from_pdf env_ex (lit ''/tmp/scan.pdf'') = None" by simp
  have "extract_text_from_pdf env_ex (lit ''/tmp/cv1.pdf'')
        = (if list_all (\<lambda>t. t = []) [lit ''Python SQL'', [], lit ''Docker''] then None
           else Some (pages_text [lit ''Python SQL'', [], lit ''Docker'']))"
    by (rule extract_text_failures [of env_ex "lit ''/tmp/cv1.pdf''", THEN conjunct2, THEN conjunct2,
          THEN spec, of "[lit ''Python SQL'', [], lit ''Docker'']", THEN mp, OF pdf_reader_example(1)])
  then have d: "extract_text_from_pdf env_ex (lit ''/tmp/cv1.pdf'')
                = Some (pages_text [lit ''Python SQL'', [], lit ''Docker''])"
    by (simp add: lit_Nil_iff)
  from a b c d show ?thesis by simp
qed

text \<open>
  The claim C5 as the specification states it fails: in a document whose first page
  yields \<open>Java\<close> and whose second page raises, swallowing the failure would give the
  first page's text, and the code returns \<open>None\<close>.
\<close>

theorem extract_text_page_failure_counterexample:
  "pdf_reader env_ex (lit ''/tmp/cv2.pdf'') = Returns [Returns (lit ''Java''), Raises]
   \<and> extract_text_spec env_ex (lit ''/tmp/cv2.pdf'') = Some (lit ''Java'' @ newline)
   \<and> extract_text_from_pdf env_ex (lit ''/tmp/cv2.pdf'') = None"
  unfolding extract_text_spec_def extract_text_from_pdf_def pages_text_def env_ex_sel
  by code_simp

subsection \<open>Normalization\<close>

lemma lit_space: "lit '' '' = [32]"
  by (simp add: lit_def)

lemma set_re_sub_nonword: "set (re_sub_nonword w s) \<subseteq> insert 32 (set s)"
proof (induction w s rule: re_sub_nonword.induct)
  case (1 w)
  then show ?case by simp
next
  case (2 w c cs)
  show ?case
  proof (cases "w c")
    case True
    with 2 show ?thesis by auto
  next
    case False
    with 2 have "set (re_sub_nonword w (dropWhile (\<lambda>d. \<not> w d) cs))
                 \<subseteq> insert 32 (set (dropWhile (\<lambda>d. \<not> w d) cs))"
      by simp
    moreover have "set (dropWhile (\<lambda>d. \<not> w d) cs) \<subseteq> set cs"
      using set_dropWhileD by fastforce
    ultimately show ?thesis using False by auto
  qed
qed

lemma free_of_re_sub_nonword:
  assumes "\<not> up 32" "free_of up s"
  shows "free_of up (re_sub_nonword w s)"
  using assms set_re_sub_nonword [of w s] by (auto simp: free_of_def list_all_iff)

lemma free_of_join:
  assumes "\<not> up 32"
  shows "list_all (free_of up) ws \<Longrightarrow> free_of up (join [32] ws)"
  using assms by (induction "[32::int]" ws rule: join.induct) (simp_all add: free_of_def)

lemma py_split_chars: "t \<in> set (py_split sp s) \<Longrightarrow> set t \<subseteq> set s"
proof (induction sp s rule: py_split.induct)
  case (1 sp)
  then show ?case by simp
next
  case (2 sp c cs)
  show ?case
  proof (cases "sp c")
    case True
    with 2 show ?thesis by auto
  next
    case False
    from "2.prems" False
    consider "t = c # takeWhile (\<lambda>d. \<not> sp d) cs" | "t \<in> set (py_split sp (dropWhile (\<lambda>d. \<not> sp d) cs))"
      by auto
    then show ?thesis
    proof cases
      case 1
      then show ?thesis using set_takeWhileD by fastforce
    next
      case 2
      with "2.IH"(2) False have "set t \<subseteq> set (dropWhile (\<lambda>d. \<not> sp d) cs)" by simp
      moreover have "set (dropWhile (\<lambda>d. \<not> sp d) cs) \<subseteq> set cs"
        using set_dropWhileD by fastforce
      ultimately show ?thesis by auto
    qed
  qed
qed

lemma free_of_py_split: "free_of up s \<Longrightarrow> list_all (free_of up) (py_split sp s)"
  using py_split_chars [of _ sp s] by (fastforce simp: free_of_def list_all_iff)

lemma free_of_lemmatize_ex: "free_of is_upper_ex t \<Longrightarrow> free_of is_upper_ex (lemmatize_ex t)"
proof -
  have "free_of is_upper_ex (lit ''skill'')" "free_of is_upper_ex (lit ''u'')"
    "free_of is_upper_ex (lit ''down'')"
    by code_simp+
  then show "free_of is_upper_ex t \<Longrightarrow> free_of is_upper_ex (lemmatize_ex t)"
    by (simp add: lemmatize_ex_def)
qed

lemma preprocess_example:
  "preprocess env_ex (lit ''Python, SQL and the Skills'') = lit ''python sql skill''"
  "preprocess env_ex (lit ''Python, SQL and Kubernetes'') = lit ''python sql kubernetes''"
  "preprocess env_ex (lit ''The and a'') = []"
  unfolding preprocess_def env_ex_sel by code_simp+

text \<open>
  C6, as the code has it. For empty input \<open>preprocess\<close> returns the empty string,
  whatever the tokenizer. Otherwise its output is the single-space join, in
  tokenization order, of the lemmas of exactly those tokens of the lowercased, cleaned
  text that are not stop words and are longer than one character: the filter runs on
  the tokens before they are lemmatized, and the lemmas are not filtered. The output
  has no uppercase character when \<open>str.lower\<close> leaves none in the text and neither the
  tokenizer nor the lemmatizer introduces one (\<open>up\<close> is any class of characters that
  does not contain the space).
\<close>

theorem preprocess_tokens:
  "preprocess e [] = []
   \<and> (text \<noteq> [] \<longrightarrow>
        preprocess e text
        = join (lit '' '')
            (map (lemmatize e)
               (filter (\<lambda>t. t \<notin> stop_words e \<and> 1 < length t)
                  (word_tokenize e (re_sub_nonword (is_word_char e) (str_lower e text))))))
   \<and> (\<not> up 32 \<and> free_of up (str_lower e text)
        \<and> (\<forall>s. free_of up s \<longrightarrow> list_all (free_of up) (word_tokenize e s))
        \<and> (\<forall>t. free_of up t \<longrightarrow> free_of up (lemmatize e t))
      \<longrightarrow> free_of up (preprocess e text))"
proof (intro conjI impI)
  show "preprocess e [] = []" by (simp add: preprocess_def)
next
  assume "text \<noteq> []"
  then show "preprocess e text
        = join (lit '' '')
            (map (lemmatize e)
               (filter (\<lambda>t. t \<notin> stop_words e \<and> 1 < length t)
                  (word_tokenize e (re_sub_nonword (is_word_char e) (str_lower e text)))))"
    by (simp add: preprocess_def Let_def)
next
  assume h: "\<not> up 32 \<and> free_of up (str_lower e text)
        \<and> (\<forall>s. free_of up s \<longrightarrow> list_all (free_of up) (word_tokenize e s))
        \<and> (\<forall>t. free_of up t \<longrightarrow> free_of up (lemmatize e t))"
  let ?clean = "re_sub_nonword (is_word_char e) (str_lower e text)"
  let ?kept = "filter (\<lambda>t. t \<notin> stop_words e \<and> 1 < length t) (word_tokenize e ?clean)"
  from h have "free_of up ?clean" by (simp add: free_of_re_sub_nonword)
  with h have "list_all (free_of up) (word_tokenize e ?clean)" by blast
  then have "list_all (free_of up) ?kept" by (simp add: list_all_iff)
  with h have "list_all (free_of up) (map (lemmatize e) ?kept)" by (simp add: list_all_iff)
  with h have "free_of up (join [32] (map (lemmatize e) ?kept))" by (simp add: free_of_join)
  then show "free_of up (preprocess e text)"
    by (simp add: preprocess_def Let_def lit_space free_of_def)
qed

theorem preprocess_tokens_witness:
  "preprocess env_ex (lit ''Python, SQL and the Skills'')
   = join (lit '' '') [lit ''python'', lit ''sql'', lit ''skill'']
   \<and> free_of is_upper_ex (preprocess env_ex (lit ''Python, SQL and the Skills''))"
proof -
  note T = preprocess_tokens [of env_ex "lit ''Python, SQL and the Skills''" is_upper_ex]
  have ne: "lit ''Python, SQL and the Skills'' \<noteq> []" by (simp add: lit_Nil_iff)
  have ev: "join (lit '' '')
            (map (lemmatize env_ex)
               (filter (\<lambda>t. t \<notin> stop_words env_ex \<and> 1 < length t)
                  (word_tokenize env_ex (re_sub_nonword (is_word_char env_ex)
                     (str_lower env_ex (lit ''Python, SQL and the Skills''))))))
            = join (lit '' '') [lit ''python'', lit ''sql'', lit ''skill'']"
    unfolding env_ex_sel by code_simp
  from T ne ev have a: "preprocess env_ex (lit ''Python, SQL and the Skills'')
      = join (lit '' '') [lit ''python'', lit ''sql'', lit ''skill'']"
    by simp
  have h1: "\<not> is_upper_ex 32" by (simp add: is_upper_ex_def)
  have h2: "free_of is_upper_ex (str_lower env_ex (lit ''Python, SQL and the Skills''))"
    unfolding env_ex_sel by code_simp
  have h3: "\<forall>s. free_of is_upper_ex s \<longrightarrow> list_all (free_of is_upper_ex) (word_tokenize env_ex s)"
    by (simp add: env_ex_sel free_of_py_split)
  have h4: "\<forall>t. free_of is_upper_ex t \<longrightarrow> free_of is_upper_ex (lemmatize env_ex t)"
    by (simp add: env_ex_sel free_of_lemmatize_ex)
  from T h1 h2 h3 h4 have b: "free_of is_upper_ex (preprocess env_ex (lit ''Python, SQL and the Skills''))"
    by blast
  from a b show ?thesis by blast
qed

text \<open>
  The claim C6 as the specification states it fails. WordNet's lemma of \<open>us\<close> is \<open>u\<close>
  and its lemma of \<open>downs\<close> is the stop word \<open>down\<close>; neither token is a stop word, so
  both lemmas reach the output. And a text of two characters U+1D400, which are
  uppercase letters without a lowercase form, comes out unchanged.
\<close>

theorem preprocess_invariant_counterexample:
  "preprocess env_ex (lit ''Contact us'') = join (lit '' '') [lit ''contact'', lit ''u'']
   \<and> length (lit ''u'') \<le> 1
   \<and> preprocess env_ex (lit ''Ups and downs'') = join (lit '' '') [lit ''ups'', lit ''down'']
   \<and> lit ''down'' \<in> stop_words env_ex
   \<and> preprocess env_ex [119808, 119808] = [119808, 119808]
   \<and> is_upper_ex 119808"
  unfolding preprocess_def env_ex_sel by code_simp

subsection \<open>The batch\<close>

lemma resume_completes_has_path: "resume_completes e rf \<Longrightarrow> has_path rf"
  by (auto simp: resume_completes_def has_path_def split: option.splits)

lemma process_resume_no_path:
  "\<not> has_path rf \<Longrightarrow> process_resume e jd st rf = st"
  by (simp add: process_resume_def has_path_def)

lemma process_resume_path:
  assumes "has_path rf"
  shows "\<exists>x. results_list (process_resume e jd st rf) = results_list st @ [x]
            \<and> entry_resume x = resume_name rf
            \<and> entry_status x = outcome_status e rf
            \<and> valid_resumes_count (process_resume e jd st rf)
                = valid_resumes_count st + (if resume_completes e rf then 1 else 0)
            \<and> files_read (process_resume e jd st rf) = files_read st @ [the (path rf)]"
proof -
  from assms obtain p where p: "path rf = Some p" by (auto simp: has_path_def)
  show ?thesis
  proof (cases "extract_text_from_pdf e p")
    case None
    with p show ?thesis
      by (simp add: process_resume_def resume_completes_def resume_name_def entry_status_def
          outcome_status_def Let_def split: option.splits)
  next
    case (Some raw)
    show ?thesis
    proof (cases "raw = [] \<or> preprocess e raw = []")
      case True
      with p Some show ?thesis
        by (auto simp: process_resume_def resume_completes_def resume_name_def entry_status_def
            outcome_status_def Let_def preprocess_def split: option.splits)
    next
      case False
      with p Some show ?thesis
        by (simp add: process_resume_def resume_completes_def resume_name_def entry_status_def
            outcome_status_def Let_def split: prod.splits option.splits)
    qed
  qed
qed

lemma foldl_process_resume:
  "\<exists>xs. results_list (foldl (process_resume e jd) st files) = results_list st @ xs
      \<and> map entry_resume xs = map resume_name (filter has_path files)
      \<and> map entry_status xs = map (outcome_status e) (filter has_path files)
      \<and> valid_resumes_count (foldl (process_resume e jd) st files)
           = valid_resumes_count st + length (filter (resume_completes e) files)
      \<and> files_read (foldl (process_resume e jd) st files)
           = files_read st @ map (\<lambda>rf. the (path rf)) (filter has_path files)"
proof (induction files arbitrary: st)
  case Nil
  then show ?case by simp
next
  case (Cons rf files)
  show ?case
  proof (cases "has_path rf")
    case False
    then have "\<not> resume_completes e rf" using resume_completes_has_path by blast
    with False Cons.IH [of st] show ?thesis
      by (simp add: process_resume_no_path)
  next
    case True
    from process_resume_path [OF True, of e jd st] obtain x where
      x: "results_list (process_resume e jd st rf) = results_list st @ [x]"
         "entry_resume x = resume_name rf"
         "entry_status x = outcome_status e rf"
         "valid_resumes_count (process_resume e jd st rf)
            = valid_resumes_count st + (if resume_completes e rf then 1 else 0)"
         "files_read (process_resume e jd st rf) = files_read st @ [the (path rf)]"
      by blast
    from Cons.IH [of "process_resume e jd st rf"] obtain xs where
      xs: "results_list (foldl (process_resume e jd) (process_resume e jd st rf) files)
             = results_list (process_resume e jd st rf) @ xs"
          "map entry_resume xs = map resume_name (filter has_path files)"
          "map entry_status xs = map (outcome_status e) (filter has_path files)"
          "valid_resumes_count (foldl (process_resume e jd) (process_resume e jd st rf) files)
             = valid_resumes_count (process_resume e jd st rf) + length (filter (resume_completes e) files)"
          "files_read (foldl (process_resume e jd) (process_resume e jd st rf) files)
             = files_read (process_resume e jd st rf) @ map (\<lambda>rf. the (path rf)) (filter has_path files)"
      by blast
    have "results_list (foldl (process_resume e jd) st (rf # files)) = results_list st @ (x # xs)"
      using x xs by simp
    moreover have "map entry_resume (x # xs) = map resume_name (filter has_path (rf # files))"
      using x xs True by simp
    moreover have "map entry_status (x # xs) = map (outcome_status e) (filter has_path (rf # files))"
      using x xs True by simp
    moreover have "valid_resumes_count (foldl (process_resume e jd) st (rf # files))
           = valid_resumes_count st + length (filter (resume_completes e) (rf # files))"
      using x xs by simp
    moreover have "files_read (foldl (process_resume e jd) st (rf # files))
           = files_read st @ map (\<lambda>rf. the (path rf)) (filter has_path (rf # files))"
      using x xs True by simp
    ultimately show ?thesis by blast
  qed
qed

lemma process_resumes_facts:
  "map entry_resume (results_list (process_resumes e jd files)) = map resume_name (filter has_path files)"
  "map entry_status (results_list (process_resumes e jd files)) = map (outcome_status e) (filter has_path files)"
  "valid_resumes_count (process_resumes e jd files) = length (filter (resume_completes e) files)"
  "files_read (process_resumes e jd files) = map (\<lambda>rf. the (path rf)) (filter has_path files)"
  using foldl_process_resume [of e jd "\<lparr>results_list = [], valid_resumes_count = 0, files_read = []\<rparr>" files]
  by (auto simp: process_resumes_def)

lemma analyze_resumes_valid:
  assumes "data = Some d" "resume_files d = Some files" "files \<noteq> []"
    "job_description d = Some jd" "jd \<noteq> []" "preprocess e jd \<noteq> []"
  shows "analyze_resumes e data =
     (let st = process_resumes e (preprocess e jd) files
      in if valid_resumes_count st = 0
         then (error_response (lit ''No valid resumes could be processed''), files_read st)
         else (\<lparr>http_code = 200, status = lit ''success'',
                message = lit ''Successfully analyzed '' @ str_of_nat (valid_resumes_count st)
                            @ lit '' resume(s)'',
                results = Some (results_list st)\<rparr>, files_read st))"
  using assms by (simp add: analyze_resumes_def Let_def)

lemma count_zero_iff: "filter P xs = [] \<longleftrightarrow> \<not> list_ex P xs"
  by (simp add: list_ex_iff filter_empty_conv)

lemma resume_completes_example:
  "resume_completes env_ex cv1" "\<not> resume_completes env_ex cv2" "\<not> resume_completes env_ex nopath"
  unfolding resume_completes_def extract_text_from_pdf_def preprocess_def env_ex_sel
    cv1_def cv2_def nopath_def
  by code_simp+

lemma has_path_example: "has_path cv1" "has_path cv2" "\<not> has_path nopath"
  by (simp_all add: has_path_def cv1_def cv2_def nopath_def)

lemma resume_name_example:
  "resume_name cv1 = lit ''alice.pdf''" "resume_name cv2 = lit ''cv2.pdf''"
  by code_simp+

lemma batch_valid:
  assumes "files \<noteq> []" "jd \<noteq> []" "preprocess e jd \<noteq> []"
  shows "analyze_resumes e (batch files jd) =
     (let st = process_resumes e (preprocess e jd) files
      in if valid_resumes_count st = 0
         then (error_response (lit ''No valid resumes could be processed''), files_read st)
         else (\<lparr>http_code = 200, status = lit ''success'',
                message = lit ''Successfully analyzed '' @ str_of_nat (valid_resumes_count st)
                            @ lit '' resume(s)'',
                results = Some (results_list st)\<rparr>, files_read st))"
  using assms
    analyze_resumes_valid [of "batch files jd" "\<lparr>resume_files = Some files, job_description = Some jd\<rparr>"
      files jd e]
  by (simp add: batch_def)

lemma jd_example:
  "lit ''Python, SQL and Kubernetes'' \<noteq> []"
  "preprocess env_ex (lit ''Python, SQL and Kubernetes'') \<noteq> []"
  by (simp_all add: preprocess_example lit_Nil_iff)

text \<open>
  C8, as the code has it. For a batch that passes the checks made before the loop (a
  body, a non-empty list of resumes, a non-empty job description that normalizes to a
  non-empty text), the overall status is \<open>success\<close> exactly when at least one resume
  completes the pipeline. When none does, the response is the error \<open>No valid resumes
  could be processed\<close>, although the loop has produced one error entry for each resume
  that has a \<open>path\<close>; a resume without a \<open>path\<close> is skipped and gets no entry.
\<close>

theorem batch_status:
  assumes "data = Some d" "resume_files d = Some files" "files \<noteq> []"
    "job_description d = Some jd" "jd \<noteq> []" "preprocess e jd \<noteq> []"
  shows "(status (fst (analyze_resumes e data)) = lit ''success'' \<longleftrightarrow> list_ex (resume_completes e) files)
       \<and> (\<not> list_ex (resume_completes e) files \<longrightarrow>
            fst (analyze_resumes e data) = error_response (lit ''No valid resumes could be processed'')
            \<and> map entry_status (results_list (process_resumes e (preprocess e jd) files))
                = replicate (length (filter has_path files)) (lit ''error''))"
proof -
  have "\<not> list_ex (resume_completes e) files \<Longrightarrow>
        map (outcome_status e) (filter has_path files)
        = replicate (length (filter has_path files)) (lit ''error'')"
    by (auto simp: list_ex_iff outcome_status_def map_replicate_const [symmetric] intro!: map_cong)
  then show ?thesis
    unfolding analyze_resumes_valid [OF assms]
    by (simp add: Let_def process_resumes_facts count_zero_iff error_response_def lit_eq_iff)
qed

theorem batch_status_witness:
  "status (fst (analyze_resumes env_ex (batch [cv2, cv1] (lit ''Python, SQL and Kubernetes''))))
   = lit ''success''
   \<and> fst (analyze_resumes env_ex (batch [cv2, nopath] (lit ''Python, SQL and Kubernetes'')))
       = error_response (lit ''No valid resumes could be processed'')
   \<and> map entry_status
         (results_list (process_resumes env_ex (lit ''python sql kubernetes'') [cv2, nopath]))
       = [lit ''error'']"
proof -
  have d: "batch [cv2, cv1] (lit ''Python, SQL and Kubernetes'')
             = Some \<lparr>resume_files = Some [cv2, cv1],
                     job_description = Some (lit ''Python, SQL and Kubernetes'')\<rparr>"
    "batch [cv2, nopath] (lit ''Python, SQL and Kubernetes'')
             = Some \<lparr>resume_files = Some [cv2, nopath],
                     job_description = Some (lit ''Python, SQL and Kubernetes'')\<rparr>"
    by (simp_all add: batch_def)
  have a: "list_ex (resume_completes env_ex) [cv2, cv1]"
    and b: "\<not> list_ex (resume_completes env_ex) [cv2, nopath]"
    by (simp_all add: resume_completes_example)
  have s: "status (fst (analyze_resumes env_ex (batch [cv2, cv1] (lit ''Python, SQL and Kubernetes''))))
           = lit ''success''"
    using batch_status [OF d(1) _ _ _ jd_example, of "[cv2, cv1]"] a by simp
  have f: "fst (analyze_resumes env_ex (batch [cv2, nopath] (lit ''Python, SQL and Kubernetes'')))
             = error_response (lit ''No valid resumes could be processed'')
           \<and> map entry_status
                 (results_list (process_resumes env_ex
                    (preprocess env_ex (lit ''Python, SQL and Kubernetes'')) [cv2, nopath]))
               = replicate (length (filter has_path [cv2, nopath])) (lit ''error'')"
    using batch_status [OF d(2) _ _ _ jd_example, of "[cv2, nopath]"] b by simp
  from s f show ?thesis
    by (simp add: preprocess_example has_path_example)
qed

text \<open>
  The claim C8 as the specification states it fails on its last sentence: a batch whose
  only resume has no \<open>path\<close> passes the checks, its resume does not complete, the
  response is the overall error, and the loop has produced no error entry for it.
\<close>

theorem batch_status_counterexample:
  "\<not> resume_completes env_ex nopath
   \<and> fst (analyze_resumes env_ex (batch [nopath] (lit ''Python, SQL and Kubernetes'')))
       = error_response (lit ''No valid resumes could be processed'')
   \<and> results_list (process_resumes env_ex
        (preprocess env_ex (lit ''Python, SQL and Kubernetes'')) [nopath]) = []"
proof -
  have "fst (analyze_resumes env_ex (batch [nopath] (lit ''Python, SQL and Kubernetes'')))
       = error_response (lit ''No valid resumes could be processed'')"
    unfolding batch_valid [OF _ jd_example, of "[nopath]", simplified]
    by (simp add: Let_def process_resumes_facts resume_completes_example)
  moreover have "results_list (process_resumes env_ex
        (preprocess env_ex (lit ''Python, SQL and Kubernetes'')) [nopath]) = []"
    by (simp add: process_resumes_def process_resume_no_path has_path_example)
  ultimately show ?thesis by (simp add: resume_completes_example)
qed

text \<open>
  C4, as the code has it. For a batch that passes the checks made before the loop: when
  at least one resume completes the pipeline, the response carries exactly one entry for
  each input resume that has a \<open>path\<close>, in the order of the input list (a resume
  without a \<open>path\<close> is skipped), and the files are read in that order; when no resume
  completes, the response is an error that carries no entries.
\<close>

theorem batch_entries:
  assumes "data = Some d" "resume_files d = Some files" "files \<noteq> []"
    "job_description d = Some jd" "jd \<noteq> []" "preprocess e jd \<noteq> []"
  shows "(list_ex (resume_completes e) files \<longrightarrow>
            (\<exists>es. results (fst (analyze_resumes e data)) = Some es
                 \<and> map entry_resume es = map resume_name (filter has_path files)
                 \<and> snd (analyze_resumes e data) = map (\<lambda>rf. the (path rf)) (filter has_path files)))
       \<and> (\<not> list_ex (resume_completes e) files \<longrightarrow>
            status (fst (analyze_resumes e data)) = lit ''error''
            \<and> results (fst (analyze_resumes e data)) = None)"
  unfolding analyze_resumes_valid [OF assms]
  by (simp add: Let_def process_resumes_facts count_zero_iff error_response_def)

theorem batch_entries_witness:
  "map entry_resume
     (the (results (fst (analyze_resumes env_ex (batch [cv2, cv1] (lit ''Python, SQL and Kubernetes''))))))
   = [lit ''cv2.pdf'', lit ''alice.pdf'']
   \<and> snd (analyze_resumes env_ex (batch [cv2, cv1] (lit ''Python, SQL and Kubernetes'')))
       = [lit ''/tmp/cv2.pdf'', lit ''/tmp/cv1.pdf'']
   \<and> status (fst (analyze_resumes env_ex (batch [cv2, nopath] (lit ''Python, SQL and Kubernetes''))))
       = lit ''error''
   \<and> results (fst (analyze_resumes env_ex (batch [cv2, nopath] (lit ''Python, SQL and Kubernetes''))))
       = None"
proof -
  have d: "batch [cv2, cv1] (lit ''Python, SQL and Kubernetes'')
             = Some \<lparr>resume_files = Some [cv2, cv1],
                     job_description = Some (lit ''Python, SQL and Kubernetes'')\<rparr>"
    "batch [cv2, nopath] (lit ''Python, SQL and Kubernetes'')
             = Some \<lparr>resume_files = Some [cv2, nopath],
                     job_description = Some (lit ''Python, SQL and Kubernetes'')\<rparr>"
    by (simp_all add: batch_def)
  have a: "list_ex (resume_completes env_ex) [cv2, cv1]"
    and b: "\<not> list_ex (resume_completes env_ex) [cv2, nopath]"
    by (simp_all add: resume_completes_example)
  have p: "the (path cv2) = lit ''/tmp/cv2.pdf''" "the (path cv1) = lit ''/tmp/cv1.pdf''"
    by (simp_all add: cv1_def cv2_def)
  have v1: "resume_files \<lparr>resume_files = Some [cv2, cv1],
                job_description = Some (lit ''Python, SQL and Kubernetes'')\<rparr> = Some [cv2, cv1]"
    "[cv2, cv1] \<noteq> []"
    "job_description \<lparr>resume_files = Some [cv2, cv1],
                job_description = Some (lit ''Python, SQL and Kubernetes'')\<rparr>
     = Some (lit ''Python, SQL and Kubernetes'')"
    by simp_all
  have v2: "resume_files \<lparr>resume_files = Some [cv2, nopath],
                job_description = Some (lit ''Python, SQL and Kubernetes'')\<rparr> = Some [cv2, nopath]"
    "[cv2, nopath] \<noteq> []"
    "job_description \<lparr>resume_files = Some [cv2, nopath],
                job_description = Some (lit ''Python, SQL and Kubernetes'')\<rparr>
     = Some (lit ''Python, SQL and Kubernetes'')"
    by simp_all
  have "\<exists>es. results (fst (analyze_resumes env_ex (batch [cv2, cv1] (lit ''Python, SQL and Kubernetes''))))
               = Some es
            \<and> map entry_resume es = map resume_name (filter has_path [cv2, cv1])
            \<and> snd (analyze_resumes env_ex (batch [cv2, cv1] (lit ''Python, SQL and Kubernetes'')))
                = map (\<lambda>rf. the (path rf)) (filter has_path [cv2, cv1])"
    by (rule batch_entries [OF d(1) v1 jd_example, THEN conjunct1, THEN mp, OF a])
  then have x: "map entry_resume
       (the (results (fst (analyze_resumes env_ex (batch [cv2, cv1] (lit ''Python, SQL and Kubernetes''))))))
     = [lit ''cv2.pdf'', lit ''alice.pdf'']
     \<and> snd (analyze_resumes env_ex (batch [cv2, cv1] (lit ''Python, SQL and Kubernetes'')))
         = [lit ''/tmp/cv2.pdf'', lit ''/tmp/cv1.pdf'']"
    by (auto simp: has_path_example resume_name_example p)
  have y: "status (fst (analyze_resumes env_ex (batch [cv2, nopath] (lit ''Python, SQL and Kubernetes''))))
             = lit ''error''
           \<and> results (fst (analyze_resumes env_ex (batch [cv2, nopath] (lit ''Python, SQL and Kubernetes''))))
             = None"
    by (rule batch_entries [OF d(2) v2 jd_example, THEN conjunct2, THEN mp, OF b])
  from x y show ?thesis by simp
qed

text \<open>
  The claim C4 as the specification states it fails twice: a batch whose only resume
  cannot be read has no entry in its response, and a batch of three resumes of which
  one has no \<open>path\<close> has two entries.
\<close>

theorem batch_entries_counterexample:
  "results (fst (analyze_resumes env_ex (batch [cv2] (lit ''Python, SQL and Kubernetes'')))) = None
   \<and> length [cv1, nopath, cv2] = 3
   \<and> map entry_resume
       (the (results (fst (analyze_resumes env_ex
          (batch [cv1, nopath, cv2] (lit ''Python, SQL and Kubernetes''))))))
     = [lit ''alice.pdf'', lit ''cv2.pdf'']"
proof -
  have "results (fst (analyze_resumes env_ex (batch [cv2] (lit ''Python, SQL and Kubernetes'')))) = None"
    unfolding batch_valid [OF _ jd_example, of "[cv2]", simplified]
    by (simp add: Let_def process_resumes_facts resume_completes_example error_response_def)
  moreover have "map entry_resume
       (the (results (fst (analyze_resumes env_ex
          (batch [cv1, nopath, cv2] (lit ''Python, SQL and Kubernetes''))))))
     = [lit ''alice.pdf'', lit ''cv2.pdf'']"
    unfolding batch_valid [OF _ jd_example, of "[cv1, nopath, cv2]", simplified]
    by (simp add: Let_def process_resumes_facts resume_completes_example has_path_example
        resume_name_example)
  ultimately show ?thesis by simp
qed

text \<open>
  C7. When the job description normalizes to the empty text, the response is a single
  error with no entries, and no file has been read; when the earlier checks pass, the
  error is \<open>Could not process the job description\<close>.
\<close>

theorem batch_fails_fast:
  assumes "data = Some d" "job_description d = Some jd" "preprocess e jd = []"
  shows "status (fst (analyze_resumes e data)) = lit ''error''
       \<and> http_code (fst (analyze_resumes e data)) = 400
       \<and> results (fst (analyze_resumes e data)) = None
       \<and> snd (analyze_resumes e data) = []
       \<and> (resume_files d \<noteq> None \<and> resume_files d \<noteq> Some [] \<and> jd \<noteq> []
            \<longrightarrow> fst (analyze_resumes e data)
                = error_response (lit ''Could not process the job description''))"
  using assms by (simp add: analyze_resumes_def Let_def error_response_def)

theorem batch_fails_fast_witness:
  "preprocess env_ex (lit ''The and a'') = []
   \<and> analyze_resumes env_ex (batch [cv1, cv2] (lit ''The and a''))
       = (error_response (lit ''Could not process the job description''), [])"
  using batch_fails_fast [of "batch [cv1, cv2] (lit ''The and a'')" _ "lit ''The and a''" env_ex]
    preprocess_example(3)
  by (auto simp: batch_def error_response_def prod_eq_iff lit_Nil_iff)

end
